theory Spec2Isabelle
  imports Main
begin

section \<open>The TypeScript plugin of graphql-code-generator\<close>

text \<open>
  This theory embeds \<^verbatim>\<open>packages/plugins/typescript/typescript/src/index.ts\<close>:
  the entry point \<^verbatim>\<open>plugin\<close>, the function \<^verbatim>\<open>includeIntrospectionDefinitions\<close> and
  its local recursive function \<^verbatim>\<open>collectTypes\<close>.
\<close>

subsection \<open>Schema types\<close>

text \<open>
  A type object of the schema is referred to by its name: the schema constructor of the
  GraphQL library rejects two type objects with one name, so the identity of a type
  object (what \<^verbatim>\<open>Array.prototype.includes\<close> compares) and its name coincide.
\<close>

type_synonym type_name = string

text \<open>\<^verbatim>\<open>GraphQLType\<close>: a named type under any number of list and non-null wrappers.\<close>

datatype GraphQLType =
    Named type_name
  | GraphQLList GraphQLType
  | GraphQLNonNull GraphQLType

text \<open>
  \<^verbatim>\<open>GraphQLNamedType\<close>: the six variants. An object, interface or input object owns its
  fields in declaration order (the order of \<^verbatim>\<open>Object.keys(type.getFields())\<close>), a union
  its member names, an enum its value names.
\<close>

datatype GraphQLNamedType =
    GraphQLScalarType type_name
  | GraphQLObjectType type_name "(string \<times> GraphQLType) list"
  | GraphQLInterfaceType type_name "(string \<times> GraphQLType) list"
  | GraphQLUnionType type_name "type_name list"
  | GraphQLEnumType type_name "string list"
  | GraphQLInputObjectType type_name "(string \<times> GraphQLType) list"

fun name_of :: "GraphQLNamedType \<Rightarrow> type_name" where
  "name_of (GraphQLScalarType n) = n"
| "name_of (GraphQLObjectType n fs) = n"
| "name_of (GraphQLInterfaceType n fs) = n"
| "name_of (GraphQLUnionType n ms) = n"
| "name_of (GraphQLEnumType n vs) = n"
| "name_of (GraphQLInputObjectType n fs) = n"


text \<open>
  \<^verbatim>\<open>GraphQLSchema\<close>: its type map (\<^verbatim>\<open>schema.getTypeMap()\<close>), in key order. The map holds
  the types of the schema's author and the introspection meta-types alike.
\<close>

record GraphQLSchema =
  typeMap :: "GraphQLNamedType list"

text \<open>Following a reference to a type object: the type of that name in the type map.\<close>

definition getType :: "GraphQLSchema \<Rightarrow> type_name \<Rightarrow> GraphQLNamedType option" where
  "getType schema n = find (\<lambda>t. name_of t = n) (typeMap schema)"

text \<open>
  \<^verbatim>\<open>getNamedType(type)\<close> unwraps the list and non-null wrappers; on \<^verbatim>\<open>undefined\<close> it
  returns \<^verbatim>\<open>undefined\<close>.
\<close>

fun unwrap :: "GraphQLType \<Rightarrow> type_name" where
  "unwrap (Named n) = n"
| "unwrap (GraphQLList t) = unwrap t"
| "unwrap (GraphQLNonNull t) = unwrap t"

definition getNamedType :: "GraphQLType option \<Rightarrow> type_name option" where
  "getNamedType ty = map_option unwrap ty"

text \<open>
  \<^verbatim>\<open>isIntrospectionType(type)\<close> of the GraphQL library: the type is one of the eight
  schema-reflection types, compared by name; false on \<^verbatim>\<open>undefined\<close>.
\<close>

definition introspectionTypes :: "type_name list" where
  "introspectionTypes =
     [''__Schema'', ''__Directive'', ''__DirectiveLocation'', ''__Type'',
      ''__Field'', ''__InputValue'', ''__EnumValue'', ''__TypeKind'']"

definition isIntrospectionType :: "type_name option \<Rightarrow> bool" where
  "isIntrospectionType ty =
     (case ty of None \<Rightarrow> False | Some n \<Rightarrow> n \<in> set introspectionTypes)"

text \<open>\<^verbatim>\<open>isObjectType(type)\<close> and \<^verbatim>\<open>type.getFields()\<close> on the type object a name refers to.\<close>

definition isObjectType :: "GraphQLSchema \<Rightarrow> type_name \<Rightarrow> bool" where
  "isObjectType schema n =
     (case getType schema n of Some (GraphQLObjectType _ _) \<Rightarrow> True | _ \<Rightarrow> False)"

definition getFields :: "GraphQLSchema \<Rightarrow> type_name \<Rightarrow> (string \<times> GraphQLType) list" where
  "getFields schema n =
     (case getType schema n of Some (GraphQLObjectType _ fs) \<Rightarrow> fs | _ \<Rightarrow> [])"

subsection \<open>collectTypes\<close>

text \<open>
  \<^verbatim>\<open>
  function collectTypes(type: GraphQLNamedType): void {
    if (typesToInclude.includes(type)) {
      return;
    }
    typesToInclude.push(type);
    if (isObjectType(type)) {
      const fields = type.getFields();
      Object.keys(fields).forEach(key => {
        const field = fields[key];
        const type = getNamedType(field.type);
        collectTypes(type);
      });
    }
  }
  \<close>
  The array \<^verbatim>\<open>typesToInclude\<close> that the closure mutates is passed in and returned.
  \<open>collectTypes_forEach\<close> is the \<^verbatim>\<open>forEach\<close> loop over the fields. The type of a
  field is never \<^verbatim>\<open>undefined\<close>, so \<^verbatim>\<open>getNamedType(field.type)\<close> is \<open>unwrap\<close> of it.
\<close>

function (domintros) collectTypes :: "GraphQLSchema \<Rightarrow> type_name \<Rightarrow> type_name list \<Rightarrow> type_name list"
  and collectTypes_forEach ::
    "GraphQLSchema \<Rightarrow> (string \<times> GraphQLType) list \<Rightarrow> type_name list \<Rightarrow> type_name list"
where
  "collectTypes schema ty typesToInclude =
     (if ty \<in> set typesToInclude then typesToInclude
      else if isObjectType schema ty
        then collectTypes_forEach schema (getFields schema ty) (typesToInclude @ [ty])
        else typesToInclude @ [ty])"
| "collectTypes_forEach schema [] typesToInclude = typesToInclude"
| "collectTypes_forEach schema (field # rest) typesToInclude =
     collectTypes_forEach schema rest
       (collectTypes schema (unwrap (snd field)) typesToInclude)"
  by pat_completeness auto

subsection \<open>JavaScript arrays and strings\<close>

text \<open>
  An element of the arrays that \<^verbatim>\<open>plugin\<close> joins is a string or an array of strings.
  \<^verbatim>\<open>Array.prototype.join\<close> converts each element to a string first, and an array converts
  to its elements joined by a comma (\<^verbatim>\<open>Array.prototype.toString\<close>).
\<close>

datatype JSValue = JSString string | JSArray "string list"

fun join_strings :: "string \<Rightarrow> string list \<Rightarrow> string" where
  "join_strings sep [] = []"
| "join_strings sep [x] = x"
| "join_strings sep (x # y # ys) = x @ sep @ join_strings sep (y # ys)"

fun ToString :: "JSValue \<Rightarrow> string" where
  "ToString (JSString x) = x"
| "ToString (JSArray xs) = join_strings '','' xs"

definition Array_join :: "string \<Rightarrow> JSValue list \<Rightarrow> string" where
  "Array_join sep xs = join_strings sep (map ToString xs)"

definition newline :: string where
  "newline = [CHR 0x0A]"

text \<open>\<^verbatim>\<open>String.prototype.includes\<close>: the pattern occurs somewhere in the string.\<close>

fun startsWith :: "string \<Rightarrow> string \<Rightarrow> bool" where
  "startsWith d [] = True"
| "startsWith [] (p # ps) = False"
| "startsWith (c # cs) (p # ps) = (c = p \<and> startsWith cs ps)"

fun String_includes :: "string \<Rightarrow> string \<Rightarrow> bool" where
  "String_includes [] pat = startsWith [] pat"
| "String_includes (c # cs) pat = (startsWith (c # cs) pat \<or> String_includes cs pat)"

subsection \<open>Documents, configuration and visitors\<close>

text \<open>
  An operation document is visited with \<^verbatim>\<open>visitWithTypeInfo\<close>, and the only callback is
  \<^verbatim>\<open>Field()\<close>, which reads \<^verbatim>\<open>typeInfo.getType()\<close>: the declared type of the field the
  visit has just entered, or \<^verbatim>\<open>undefined\<close> when the selection does not resolve in the
  schema. A document is represented by its \<^verbatim>\<open>Field\<close> nodes in visit order, each with that
  type.
\<close>

datatype FieldNode = FieldNode (field_name: string) (field_type: "GraphQLType option")

datatype DocumentFile = DocumentFile (filePath: string) (doc_content: "FieldNode list")

text \<open>
  \<^verbatim>\<open>TypeScriptPluginConfig\<close>: the options the interface declares, each optional. The
  options inherited from \<^verbatim>\<open>RawTypesConfig\<close> and the per-kind form of \<^verbatim>\<open>avoidOptionals\<close>
  (\<^verbatim>\<open>AvoidOptionalsConfig\<close>) are declared in other packages; they are the type
  parameters \<open>'r\<close> and \<open>'o\<close>.
\<close>

record ('r, 'o) TypeScriptPluginConfig =
  rawTypesConfig :: 'r
  avoidOptionals :: "(bool + 'o) option"
  constEnums :: "bool option"
  enumsAsTypes :: "bool option"
  immutableTypes :: "bool option"
  maybeValue :: "string option"
  noExport :: "bool option"
  generateOnly :: "string list option"

text \<open>
  The class \<^verbatim>\<open>TsVisitor\<close> is imported from \<^verbatim>\<open>./visitor\<close>. \<^verbatim>\<open>plugin\<close> uses an
  instance through four getters and as the \<^verbatim>\<open>leave\<close> visitor of the schema walk; the
  record holds what these return for the instance. The constructor
  \<^verbatim>\<open>new TsVisitor(schema, config)\<close> is a parameter of the functions below.
\<close>

record TsVisitor =
  getMaybeValue :: string
  scalarsDefinition :: string
  getEnumsImports :: "string list"
  getScalarsImports :: "string list"
  leave :: "GraphQLNamedType \<Rightarrow> string"

text \<open>
  Modelled from the spec: \<^verbatim>\<open>printSchema\<close> of the GraphQL library, and the walk over its
  output, are not in \<^verbatim>\<open>index.ts\<close>. The walk visits every named type of the schema's
  type map once, in the schema's order, introspection meta-types excluded. The printed
  text is represented by the type definitions it holds.
\<close>

definition printSchema :: "GraphQLSchema \<Rightarrow> GraphQLNamedType list" where
  "printSchema schema =
     filter (\<lambda>t. \<not> isIntrospectionType (Some (name_of t))) (typeMap schema)"

text \<open>
  Modelled from the spec: \<^verbatim>\<open>printIntrospectionSchema\<close> of the GraphQL library is not in
  \<^verbatim>\<open>index.ts\<close>. The introspection schema's own printed representation holds the
  introspection meta-types of the type map.
\<close>

definition printIntrospectionSchema :: "GraphQLSchema \<Rightarrow> GraphQLNamedType list" where
  "printIntrospectionSchema schema =
     filter (\<lambda>t. isIntrospectionType (Some (name_of t))) (typeMap schema)"

text \<open>
  Modelled from the spec: \<^verbatim>\<open>parse\<close> of the GraphQL library is not in \<^verbatim>\<open>index.ts\<close>. It
  reads the printed definitions back.
\<close>

definition parse :: "GraphQLNamedType list \<Rightarrow> GraphQLNamedType list" where
  "parse printed = printed"

text \<open>
  Modelled from the spec: \<^verbatim>\<open>visit\<close> of the GraphQL library is not in \<^verbatim>\<open>index.ts\<close>. With
  a \<^verbatim>\<open>leave\<close> visitor it replaces each definition by what the visitor returns for it, in
  order, and drops the definition when the visitor returns \<^verbatim>\<open>null\<close>. The walk of
  \<^verbatim>\<open>TsVisitor\<close> turns each visited type into one declaration string.
\<close>

definition visit :: "GraphQLNamedType list \<Rightarrow> (GraphQLNamedType \<Rightarrow> string option) \<Rightarrow> string list" where
  "visit definitions visitor = List.map_filter visitor definitions"

text \<open>
  Modelled from the spec: the class \<^verbatim>\<open>TsIntrospectionVisitor\<close> of
  \<^verbatim>\<open>./introspection-visitor\<close> is missing. It renders the collected types through the
  declaration emitter of the plugin, with the printed introspection schema as the parse
  source: a definition whose type is in \<^verbatim>\<open>typesToInclude\<close> is rendered as \<^verbatim>\<open>TsVisitor\<close>
  renders it, any other definition is dropped.
\<close>

definition TsIntrospectionVisitor ::
  "(GraphQLSchema \<Rightarrow> ('r, 'o) TypeScriptPluginConfig \<Rightarrow> TsVisitor) \<Rightarrow> GraphQLSchema
     \<Rightarrow> ('r, 'o) TypeScriptPluginConfig \<Rightarrow> type_name list \<Rightarrow> GraphQLNamedType \<Rightarrow> string option" where
  "TsIntrospectionVisitor newTsVisitor schema config typesToInclude node =
     (if name_of node \<in> set typesToInclude
      then Some (leave (newTsVisitor schema config) node) else None)"

subsection \<open>includeIntrospectionDefinitions\<close>

text \<open>
  The \<^verbatim>\<open>Field()\<close> callback of the documents visitor:
  \<^verbatim>\<open>
  const type = getNamedType(typeInfo.getType());
  if (isIntrospectionType(type) && !usedTypes.includes(type)) {
    usedTypes.push(type);
  }
  \<close>
\<close>

definition Field_callback :: "type_name list \<Rightarrow> FieldNode \<Rightarrow> type_name list" where
  "Field_callback usedTypes node =
     (case getNamedType (field_type node) of
        None \<Rightarrow> usedTypes
      | Some ty \<Rightarrow>
          if isIntrospectionType (Some ty) \<and> ty \<notin> set usedTypes
          then usedTypes @ [ty] else usedTypes)"

text \<open>\<^verbatim>\<open>documents.forEach(doc => visit(doc.content, documentsVisitor))\<close>\<close>

definition collectUsedTypes :: "DocumentFile list \<Rightarrow> type_name list" where
  "collectUsedTypes documents =
     foldl (\<lambda>usedTypes doc. foldl Field_callback usedTypes (doc_content doc)) [] documents"

text \<open>\<^verbatim>\<open>usedTypes.forEach(type => { collectTypes(type); })\<close>, from an empty \<^verbatim>\<open>typesToInclude\<close>.\<close>

definition collectAll :: "GraphQLSchema \<Rightarrow> type_name list \<Rightarrow> type_name list" where
  "collectAll schema usedTypes =
     foldl (\<lambda>typesToInclude ty. collectTypes schema ty typesToInclude) [] usedTypes"

definition includeIntrospectionDefinitions ::
  "(GraphQLSchema \<Rightarrow> ('r, 'o) TypeScriptPluginConfig \<Rightarrow> TsVisitor) \<Rightarrow> GraphQLSchema
     \<Rightarrow> DocumentFile list \<Rightarrow> ('r, 'o) TypeScriptPluginConfig \<Rightarrow> string list" where
  "includeIntrospectionDefinitions newTsVisitor schema documents config =
     (let usedTypes = collectUsedTypes documents;
          typesToInclude = collectAll schema usedTypes;
          visitor = TsIntrospectionVisitor newTsVisitor schema config typesToInclude
      in visit (parse (printIntrospectionSchema schema)) visitor)"

subsection \<open>plugin\<close>

text \<open>
  The result of \<^verbatim>\<open>plugin\<close>. The function has no \<^verbatim>\<open>throw\<close>: every path of it returns
  an output. The error type is that of the generator's error taxonomy.
\<close>

datatype error = ConfigurationError | SchemaIntegrityError

record PluginOutput =
  prepend :: "string list"
  content :: string

text \<open>
  \<^verbatim>\<open>config.generateOnly && config.generateOnly.length > 0 && config.generateOnly[0] === 'enums'\<close>:
  an absent option is falsy, an array (also the empty one) is truthy.
\<close>

definition generateOnly_enums :: "('r, 'o) TypeScriptPluginConfig \<Rightarrow> bool" where
  "generateOnly_enums config =
     (case generateOnly config of
        None \<Rightarrow> False
      | Some g \<Rightarrow> length g > 0 \<and> g ! 0 = ''enums'')"

text \<open>
  \<^verbatim>\<open>
  if (config.generateOnly && ...) {
    return {
      prepend: [ ],
      content: [visitorResult.definitions.filter(d => d.includes('export enum'))].join('\n'),
    };
  }
  return {
    prepend: [...visitor.getEnumsImports(), ...visitor.getScalarsImports(), maybeValue],
    content: [scalars, ...visitorResult.definitions, ...introspectionDefinitions].join('\n'),
  };
  \<close>
  In the first branch the joined array has one element, the filtered array itself; in
  the second the definitions are spread into the joined array.
\<close>

definition plugin ::
  "(GraphQLSchema \<Rightarrow> ('r, 'o) TypeScriptPluginConfig \<Rightarrow> TsVisitor) \<Rightarrow> GraphQLSchema
     \<Rightarrow> DocumentFile list \<Rightarrow> ('r, 'o) TypeScriptPluginConfig \<Rightarrow> error + PluginOutput" where
  "plugin newTsVisitor schema documents config =
     (let visitor = newTsVisitor schema config;
          printedSchema = printSchema schema;
          astNode = parse printedSchema;
          maybeValue = getMaybeValue visitor;
          visitorResult = visit astNode (\<lambda>node. Some (leave visitor node));
          introspectionDefinitions =
            includeIntrospectionDefinitions newTsVisitor schema documents config;
          scalars = scalarsDefinition visitor
      in if generateOnly_enums config
         then Inr \<lparr>prepend = [],
                   content = Array_join newline
                     [JSArray (filter (\<lambda>d. String_includes d ''export enum'') visitorResult)]\<rparr>
         else Inr \<lparr>prepend = getEnumsImports visitor @ getScalarsImports visitor @ [maybeValue],
                   content = Array_join newline
                     (map JSString (scalars # visitorResult @ introspectionDefinitions))\<rparr>)"

subsection \<open>Reachability in the type graph\<close>

text \<open>
  The edges that \<^verbatim>\<open>collectTypes\<close> follows: from an object type to the named type of
  each of its fields. Interfaces, unions and the other variants have no outgoing edge.
\<close>

definition field_edges :: "GraphQLSchema \<Rightarrow> (type_name \<times> type_name) set" where
  "field_edges schema =
     {(a, b). isObjectType schema a \<and> b \<in> unwrap ` snd ` set (getFields schema a)}"

definition reachable_from :: "GraphQLSchema \<Rightarrow> type_name \<Rightarrow> type_name set" where
  "reachable_from schema ty = (field_edges schema)\<^sup>* `` {ty}"

text \<open>
  The invariant of the traversal: every type added since the accumulator was \<open>acc\<close> has
  all its successors in the result.
\<close>

definition closed_since :: "GraphQLSchema \<Rightarrow> type_name list \<Rightarrow> type_name list \<Rightarrow> bool" where
  "closed_since schema acc res \<longleftrightarrow>
     (\<forall>x \<in> set res - set acc. field_edges schema `` {x} \<subseteq> set res)"

text \<open>
  The measure of the recursion: the number of types of the type map not yet in the
  accumulator, then the position in the loop over the fields.
\<close>

definition collect_measure ::
  "GraphQLSchema \<times> type_name \<times> type_name list + GraphQLSchema \<times> (string \<times> GraphQLType) list \<times> type_name list
     \<Rightarrow> nat \<times> nat" where
  "collect_measure x =
     (case x of
        Inl (schema, ty, acc) \<Rightarrow> (card (name_of ` set (typeMap schema) - set acc), 1)
      | Inr (schema, fs, acc) \<Rightarrow>
          (card (name_of ` set (typeMap schema) - set acc),
           if fs = [] then 0 else Suc (length fs)))"

subsection \<open>Example inputs\<close>

text \<open>
  A visitor that writes a native exported enumeration for an enum and a type alias for
  every other variant, whatever the configuration.
\<close>

fun example_leave :: "GraphQLNamedType \<Rightarrow> string" where
  "example_leave (GraphQLEnumType n vs) = ''export enum '' @ n @ '' {}''"
| "example_leave t = ''export type '' @ name_of t @ '' = {};''"

definition example_visitor ::
  "GraphQLSchema \<Rightarrow> (unit, unit) TypeScriptPluginConfig \<Rightarrow> TsVisitor" where
  "example_visitor schema config =
     \<lparr>getMaybeValue = ''export type Maybe<T> = T | null;'',
      scalarsDefinition = ''export type Scalars = {};'',
      getEnumsImports = [],
      getScalarsImports = [],
      leave = example_leave\<rparr>"

definition example_config :: "(unit, unit) TypeScriptPluginConfig" where
  "example_config =
     \<lparr>rawTypesConfig = (), avoidOptionals = None, constEnums = None, enumsAsTypes = None,
      immutableTypes = None, maybeValue = None, noExport = None, generateOnly = None\<rparr>"

text \<open>
  \<^verbatim>\<open>
  type Query { me: User, role: Role }
  type User { id: ID!, friends: [User] }
  enum Role { ADMIN USER }
  enum Color { RED GREEN }
  \<close>
  together with the two scalars in use and the eight introspection meta-types of the
  GraphQL library. \<^verbatim>\<open>User\<close> refers to itself, and \<^verbatim>\<open>__Type\<close>, \<^verbatim>\<open>__Field\<close> and
  \<^verbatim>\<open>__InputValue\<close> refer to one another.
\<close>

definition example_schema :: GraphQLSchema where
  "example_schema =
     \<lparr>typeMap =
       [GraphQLObjectType ''Query'' [(''me'', Named ''User''), (''role'', Named ''Role'')],
        GraphQLObjectType ''User''
          [(''id'', GraphQLNonNull (Named ''ID'')), (''friends'', GraphQLList (Named ''User''))],
        GraphQLScalarType ''ID'',
        GraphQLEnumType ''Role'' [''ADMIN'', ''USER''],
        GraphQLEnumType ''Color'' [''RED'', ''GREEN''],
        GraphQLObjectType ''__Schema''
          [(''types'', GraphQLNonNull (GraphQLList (GraphQLNonNull (Named ''__Type'')))),
           (''queryType'', GraphQLNonNull (Named ''__Type'')),
           (''mutationType'', Named ''__Type''),
           (''subscriptionType'', Named ''__Type''),
           (''directives'', GraphQLNonNull (GraphQLList (GraphQLNonNull (Named ''__Directive''))))],
        GraphQLObjectType ''__Type''
          [(''kind'', GraphQLNonNull (Named ''__TypeKind'')),
           (''name'', Named ''String''),
           (''description'', Named ''String''),
           (''fields'', GraphQLList (GraphQLNonNull (Named ''__Field''))),
           (''interfaces'', GraphQLList (GraphQLNonNull (Named ''__Type''))),
           (''possibleTypes'', GraphQLList (GraphQLNonNull (Named ''__Type''))),
           (''enumValues'', GraphQLList (GraphQLNonNull (Named ''__EnumValue''))),
           (''inputFields'', GraphQLList (GraphQLNonNull (Named ''__InputValue''))),
           (''ofType'', Named ''__Type'')],
        GraphQLEnumType ''__TypeKind''
          [''SCALAR'', ''OBJECT'', ''INTERFACE'', ''UNION'', ''ENUM'', ''INPUT_OBJECT'', ''LIST'',
           ''NON_NULL''],
        GraphQLScalarType ''String'',
        GraphQLObjectType ''__Field''
          [(''name'', GraphQLNonNull (Named ''String'')),
           (''description'', Named ''String''),
           (''args'', GraphQLNonNull (GraphQLList (GraphQLNonNull (Named ''__InputValue'')))),
           (''type'', GraphQLNonNull (Named ''__Type'')),
           (''isDeprecated'', GraphQLNonNull (Named ''Boolean'')),
           (''deprecationReason'', Named ''String'')],
        GraphQLObjectType ''__InputValue''
          [(''name'', GraphQLNonNull (Named ''String'')),
           (''description'', Named ''String''),
           (''type'', GraphQLNonNull (Named ''__Type'')),
           (''defaultValue'', Named ''String'')],
        GraphQLScalarType ''Boolean'',
        GraphQLObjectType ''__EnumValue''
          [(''name'', GraphQLNonNull (Named ''String'')),
           (''description'', Named ''String''),
           (''isDeprecated'', GraphQLNonNull (Named ''Boolean'')),
           (''deprecationReason'', Named ''String'')],
        GraphQLObjectType ''__Directive''
          [(''name'', GraphQLNonNull (Named ''String'')),
           (''description'', Named ''String''),
           (''locations'', GraphQLNonNull (GraphQLList (GraphQLNonNull (Named ''__DirectiveLocation'')))),
           (''args'', GraphQLNonNull (GraphQLList (GraphQLNonNull (Named ''__InputValue''))))],
        GraphQLEnumType ''__DirectiveLocation'' [''QUERY'', ''MUTATION'', ''FIELD'']]\<rparr>"

text \<open>
  \<^verbatim>\<open>query { __type(name: "User") { name } }\<close>: the field \<^verbatim>\<open>__type\<close> has the type
  \<^verbatim>\<open>__Type\<close>, the field \<^verbatim>\<open>name\<close> of \<^verbatim>\<open>__Type\<close> the type \<^verbatim>\<open>String\<close>.
\<close>

definition type_name_query :: DocumentFile where
  "type_name_query =
     DocumentFile ''type-name.graphql''
       [FieldNode ''__type'' (Some (Named ''__Type'')), FieldNode ''name'' (Some (Named ''String''))]"

text \<open>\<^verbatim>\<open>query { me { id friends { id } } }\<close>: no field of an introspection type.\<close>

definition me_query :: DocumentFile where
  "me_query =
     DocumentFile ''me.graphql''
       [FieldNode ''me'' (Some (Named ''User'')),
        FieldNode ''id'' (Some (GraphQLNonNull (Named ''ID''))),
        FieldNode ''friends'' (Some (GraphQLList (Named ''User''))),
        FieldNode ''id'' (Some (GraphQLNonNull (Named ''ID'')))]"



text \<open>
  \<^verbatim>\<open>fragment TypeName on __Type { name }\<close>: the document refers to the field \<^verbatim>\<open>name\<close>
  of \<^verbatim>\<open>__Type\<close> and to nothing else; its only \<^verbatim>\<open>Field\<close> node is \<^verbatim>\<open>name\<close>, of the type
  \<^verbatim>\<open>String\<close>.
\<close>

definition type_name_fragment :: DocumentFile where
  "type_name_fragment =
     DocumentFile ''type-name-fragment.graphql'' [FieldNode ''name'' (Some (Named ''String''))]"

section \<open>Properties\<close>

subsection \<open>Termination of collectTypes\<close>

lemma collectTypes_grows_dom:
  "collectTypes_collectTypes_forEach_dom (Inl (schema, ty, acc)) \<Longrightarrow>
     set acc \<subseteq> set (collectTypes schema ty acc)"
  "collectTypes_collectTypes_forEach_dom (Inr (schema, fs, acc)) \<Longrightarrow>
     set acc \<subseteq> set (collectTypes_forEach schema fs acc)"
proof (induction schema ty acc and schema fs acc rule: collectTypes_collectTypes_forEach.pinduct)
  case (1 schema ty acc)
  then show ?case
    by (auto simp: collectTypes.psimps)
next
  case (2 schema acc)
  then show ?case
    by (simp add: collectTypes_forEach.psimps)
next
  case (3 schema field rest acc)
  then show ?case
    by (auto simp: collectTypes_forEach.psimps)
qed

lemma isObjectType_in_typeMap:
  "isObjectType schema n \<Longrightarrow> n \<in> name_of ` set (typeMap schema)"
  by (auto simp: isObjectType_def getType_def find_Some_iff
      split: option.splits GraphQLNamedType.splits)

lemma card_unseen_less:
  assumes "n \<in> name_of ` set (typeMap schema)" "n \<notin> set acc"
  shows "card (name_of ` set (typeMap schema) - set (acc @ [n]))
           < card (name_of ` set (typeMap schema) - set acc)"
proof (rule psubset_card_mono)
  show "finite (name_of ` set (typeMap schema) - set acc)" by simp
  show "name_of ` set (typeMap schema) - set (acc @ [n])
          \<subset> name_of ` set (typeMap schema) - set acc"
    using assms by auto
qed

lemma card_unseen_mono:
  assumes "set acc \<subseteq> set acc'"
  shows "card (name_of ` set (typeMap schema) - set acc')
           \<le> card (name_of ` set (typeMap schema) - set acc)"
proof (rule card_mono)
  show "finite (name_of ` set (typeMap schema) - set acc)" by simp
  show "name_of ` set (typeMap schema) - set acc' \<subseteq> name_of ` set (typeMap schema) - set acc"
    using assms by auto
qed

lemma collectTypes_total: "All collectTypes_collectTypes_forEach_dom"
proof
  fix x
  have "wf (inv_image (less_than <*lex*> less_than) collect_measure)"
    by (intro wf_inv_image wf_lex_prod wf_less_than)
  then show "collectTypes_collectTypes_forEach_dom x"
  proof (induction x rule: wf_induct_rule)
    case (less x)
    show ?case
    proof (cases x)
      case (Inl a)
      obtain schema ty acc where a: "a = (schema, ty, acc)"
        by (cases a)
      show ?thesis
        unfolding Inl a
      proof (rule collectTypes_collectTypes_forEach.domintros(1))
        assume "ty \<notin> set acc" "isObjectType schema ty"
        then have "(Inr (schema, getFields schema ty, acc @ [ty]), x)
                     \<in> inv_image (less_than <*lex*> less_than) collect_measure"
          using card_unseen_less [OF isObjectType_in_typeMap, of schema ty acc]
          by (simp add: collect_measure_def Inl a)
        then show "collectTypes_collectTypes_forEach_dom
                     (Inr (schema, getFields schema ty, acc @ [ty]))"
          by (rule less.IH)
      qed
    next
      case (Inr b)
      obtain schema fs acc where b: "b = (schema, fs, acc)"
        by (cases b)
      show ?thesis
      proof (cases fs)
        case Nil
        show ?thesis
          unfolding Inr b Nil by (rule collectTypes_collectTypes_forEach.domintros(2))
      next
        case (Cons field rest)
        have "(Inl (schema, unwrap (snd field), acc), x)
                \<in> inv_image (less_than <*lex*> less_than) collect_measure"
          by (simp add: collect_measure_def Inr b Cons)
        then have inner: "collectTypes_collectTypes_forEach_dom
                            (Inl (schema, unwrap (snd field), acc))"
          by (rule less.IH)
        then have "set acc \<subseteq> set (collectTypes schema (unwrap (snd field)) acc)"
          by (rule collectTypes_grows_dom)
        then have "card (name_of ` set (typeMap schema)
                           - set (collectTypes schema (unwrap (snd field)) acc))
                     \<le> card (name_of ` set (typeMap schema) - set acc)"
          by (rule card_unseen_mono)
        then have "(Inr (schema, rest, collectTypes schema (unwrap (snd field)) acc), x)
                     \<in> inv_image (less_than <*lex*> less_than) collect_measure"
          by (auto simp: collect_measure_def Inr b Cons)
        then have "collectTypes_collectTypes_forEach_dom
                     (Inr (schema, rest, collectTypes schema (unwrap (snd field)) acc))"
          by (rule less.IH)
        with inner show ?thesis
          unfolding Inr b Cons by (rule collectTypes_collectTypes_forEach.domintros(3))
      qed
    qed
  qed
qed

termination collectTypes
  by (rule collectTypes_total)

declare collectTypes.simps [simp del]

subsection \<open>What collectTypes collects\<close>

lemma collectTypes_grows:
  "set acc \<subseteq> set (collectTypes schema ty acc)"
  "set acc \<subseteq> set (collectTypes_forEach schema fs acc)"
  using collectTypes_total collectTypes_grows_dom by blast+

lemma collectTypes_contains:
  "ty \<in> set (collectTypes schema ty acc)"
  "unwrap ` snd ` set fs \<subseteq> set (collectTypes_forEach schema fs acc)"
proof (induction schema ty acc and schema fs acc rule: collectTypes_collectTypes_forEach.induct)
  case (1 schema ty acc)
  show ?case
    using collectTypes_grows(2) [of "acc @ [ty]" schema "getFields schema ty"]
    by (auto simp: collectTypes.simps)
next
  case (2 schema acc)
  show ?case by simp
next
  case (3 schema field rest acc)
  have "unwrap (snd field) \<in> set (collectTypes schema (unwrap (snd field)) acc)"
    by (rule "3.IH"(1))
  then have "unwrap (snd field)
      \<in> set (collectTypes_forEach schema rest (collectTypes schema (unwrap (snd field)) acc))"
    using collectTypes_grows(2) by blast
  with "3.IH"(2) show ?case by simp
qed

lemma field_edges_iff:
  "(a, b) \<in> field_edges schema \<longleftrightarrow> isObjectType schema a \<and> b \<in> unwrap ` snd ` set (getFields schema a)"
  by (simp add: field_edges_def)

lemma collectTypes_sound:
  "set (collectTypes schema ty acc) \<subseteq> set acc \<union> (field_edges schema)\<^sup>* `` {ty}"
  "set (collectTypes_forEach schema fs acc)
     \<subseteq> set acc \<union> (field_edges schema)\<^sup>* `` (unwrap ` snd ` set fs)"
proof (induction schema ty acc and schema fs acc rule: collectTypes_collectTypes_forEach.induct)
  case (1 schema ty acc)
  show ?case
  proof (cases "ty \<in> set acc")
    case True
    then show ?thesis by (simp add: collectTypes.simps)
  next
    case False
    show ?thesis
    proof (cases "isObjectType schema ty")
      case True
      have step: "(field_edges schema)\<^sup>* `` (unwrap ` snd ` set (getFields schema ty))
                    \<subseteq> (field_edges schema)\<^sup>* `` {ty}"
      proof
        fix x assume "x \<in> (field_edges schema)\<^sup>* `` (unwrap ` snd ` set (getFields schema ty))"
        then obtain b where b: "b \<in> unwrap ` snd ` set (getFields schema ty)"
          and bx: "(b, x) \<in> (field_edges schema)\<^sup>*" by blast
        from b True have "(ty, b) \<in> field_edges schema" by (simp add: field_edges_iff)
        with bx show "x \<in> (field_edges schema)\<^sup>* `` {ty}"
          by (auto intro: converse_rtrancl_into_rtrancl)
      qed
      have res: "collectTypes schema ty acc
                   = collectTypes_forEach schema (getFields schema ty) (acc @ [ty])"
        using False True by (simp add: collectTypes.simps)
      have self: "ty \<in> (field_edges schema)\<^sup>* `` {ty}" by blast
      from "1.IH" [OF False True] step self show ?thesis
        unfolding res by (simp add: subset_iff) blast
    next
      case no: False
      with False show ?thesis by (auto simp: collectTypes.simps)
    qed
  qed
next
  case (2 schema acc)
  show ?case by simp
next
  case (3 schema field rest acc)
  have img: "(field_edges schema)\<^sup>* `` (unwrap ` snd ` set (field # rest))
               = (field_edges schema)\<^sup>* `` {unwrap (snd field)}
                 \<union> (field_edges schema)\<^sup>* `` (unwrap ` snd ` set rest)"
    by auto
  from "3.IH" show ?case
    unfolding img by (simp add: subset_iff) blast
qed

lemma closed_since_trans:
  assumes "closed_since schema acc mid" "closed_since schema mid res" "set mid \<subseteq> set res"
  shows "closed_since schema acc res"
  using assms unfolding closed_since_def by blast

lemma collectTypes_closed:
  "closed_since schema acc (collectTypes schema ty acc)"
  "closed_since schema acc (collectTypes_forEach schema fs acc)"
proof (induction schema ty acc and schema fs acc rule: collectTypes_collectTypes_forEach.induct)
  case (1 schema ty acc)
  show ?case
  proof (cases "ty \<in> set acc")
    case True
    then show ?thesis by (simp add: collectTypes.simps closed_since_def)
  next
    case False
    show ?thesis
    proof (cases "isObjectType schema ty")
      case True
      let ?res = "collectTypes_forEach schema (getFields schema ty) (acc @ [ty])"
      have res: "collectTypes schema ty acc = ?res"
        using False True by (simp add: collectTypes.simps)
      have ih: "closed_since schema (acc @ [ty]) ?res"
        by (rule "1.IH" [OF False True])
      have succ: "field_edges schema `` {ty} \<subseteq> set ?res"
        using collectTypes_contains(2) [of "getFields schema ty" schema "acc @ [ty]"]
        by (auto simp: field_edges_iff)
      show ?thesis
        unfolding res using ih succ by (auto simp: closed_since_def)
    next
      case no: False
      then have "field_edges schema `` {ty} = {}" by (auto simp: field_edges_iff)
      with False no show ?thesis by (auto simp: collectTypes.simps closed_since_def)
    qed
  qed
next
  case (2 schema acc)
  show ?case by (simp add: closed_since_def)
next
  case (3 schema field rest acc)
  have "closed_since schema acc
          (collectTypes_forEach schema rest (collectTypes schema (unwrap (snd field)) acc))"
    using "3.IH" collectTypes_grows(2) by (rule closed_since_trans)
  then show ?case by simp
qed

lemma closed_rtrancl:
  assumes "closed_since schema [] res" "a \<in> set res" "(a, b) \<in> (field_edges schema)\<^sup>*"
  shows "b \<in> set res"
  using assms(3,1,2)
  by (induction rule: rtrancl_induct) (auto simp: closed_since_def)

lemma collectTypes_distinct:
  "distinct acc \<Longrightarrow> distinct (collectTypes schema ty acc)"
  "distinct acc \<Longrightarrow> distinct (collectTypes_forEach schema fs acc)"
  by (induction schema ty acc and schema fs acc rule: collectTypes_collectTypes_forEach.induct)
    (auto simp: collectTypes.simps)


lemma foldl_collect_grows:
  "set acc \<subseteq> set (foldl (\<lambda>a ty. collectTypes schema ty a) acc us)"
proof (induction us arbitrary: acc)
  case Nil
  show ?case by simp
next
  case (Cons u us)
  from Cons [of "collectTypes schema u acc"] collectTypes_grows(1) [of acc schema u]
  show ?case by auto
qed

lemma foldl_collect_contains:
  "set us \<subseteq> set (foldl (\<lambda>a ty. collectTypes schema ty a) acc us)"
proof (induction us arbitrary: acc)
  case Nil
  show ?case by simp
next
  case (Cons u us)
  have "u \<in> set (foldl (\<lambda>a ty. collectTypes schema ty a) (collectTypes schema u acc) us)"
    using foldl_collect_grows collectTypes_contains(1) by blast
  with Cons [of "collectTypes schema u acc"] show ?case by simp
qed

lemma foldl_collect_sound:
  "set (foldl (\<lambda>a ty. collectTypes schema ty a) acc us)
     \<subseteq> set acc \<union> (field_edges schema)\<^sup>* `` set us"
proof (induction us arbitrary: acc)
  case Nil
  show ?case by simp
next
  case (Cons u us)
  have img: "(field_edges schema)\<^sup>* `` set (u # us)
               = (field_edges schema)\<^sup>* `` {u} \<union> (field_edges schema)\<^sup>* `` set us"
    by auto
  from Cons [of "collectTypes schema u acc"] collectTypes_sound(1) [of schema u acc]
  show ?case
    unfolding img by (simp add: subset_iff) blast
qed

lemma foldl_collect_closed:
  "closed_since schema acc (foldl (\<lambda>a ty. collectTypes schema ty a) acc us)"
proof (induction us arbitrary: acc)
  case Nil
  show ?case by (simp add: closed_since_def)
next
  case (Cons u us)
  have "closed_since schema acc
          (foldl (\<lambda>a ty. collectTypes schema ty a) (collectTypes schema u acc) us)"
    using collectTypes_closed(1) Cons foldl_collect_grows by (rule closed_since_trans)
  then show ?case by simp
qed

lemma set_collectAll:
  "set (collectAll schema usedTypes) = (field_edges schema)\<^sup>* `` set usedTypes"
proof
  show "set (collectAll schema usedTypes) \<subseteq> (field_edges schema)\<^sup>* `` set usedTypes"
    using foldl_collect_sound [of schema "[]" usedTypes] by (simp add: collectAll_def)
next
  show "(field_edges schema)\<^sup>* `` set usedTypes \<subseteq> set (collectAll schema usedTypes)"
  proof
    fix b assume "b \<in> (field_edges schema)\<^sup>* `` set usedTypes"
    then obtain a where a: "a \<in> set usedTypes" and ab: "(a, b) \<in> (field_edges schema)\<^sup>*"
      by blast
    have "closed_since schema [] (collectAll schema usedTypes)"
      unfolding collectAll_def by (rule foldl_collect_closed)
    moreover have "a \<in> set (collectAll schema usedTypes)"
      using a foldl_collect_contains [of usedTypes schema "[]"] by (auto simp: collectAll_def)
    ultimately show "b \<in> set (collectAll schema usedTypes)"
      using ab by (rule closed_rtrancl)
  qed
qed

lemma set_Field_callback:
  "set (Field_callback usedTypes node)
     = set usedTypes \<union> {ty. getNamedType (field_type node) = Some ty \<and> isIntrospectionType (Some ty)}"
  by (auto simp: Field_callback_def split: option.splits)

lemma set_foldl_Field_callback:
  "set (foldl Field_callback usedTypes nodes)
     = set usedTypes \<union> {ty. isIntrospectionType (Some ty)
          \<and> (\<exists>node \<in> set nodes. getNamedType (field_type node) = Some ty)}"
  by (induction nodes arbitrary: usedTypes) (auto simp: set_Field_callback)

lemma set_foldl_documents:
  "set (foldl (\<lambda>usedTypes doc. foldl Field_callback usedTypes (doc_content doc)) usedTypes documents)
     = set usedTypes \<union> {ty. isIntrospectionType (Some ty)
          \<and> (\<exists>doc \<in> set documents. \<exists>node \<in> set (doc_content doc).
                getNamedType (field_type node) = Some ty)}"
  by (induction documents arbitrary: usedTypes) (auto simp: set_foldl_Field_callback)

lemma set_collectUsedTypes:
  "set (collectUsedTypes documents)
     = {ty. isIntrospectionType (Some ty)
          \<and> (\<exists>doc \<in> set documents. \<exists>node \<in> set (doc_content doc).
                getNamedType (field_type node) = Some ty)}"
  by (simp add: collectUsedTypes_def set_foldl_documents)

lemma includeIntrospectionDefinitions_eq:
  "includeIntrospectionDefinitions newTsVisitor schema documents config
     = map (leave (newTsVisitor schema config))
         (filter (\<lambda>t. name_of t \<in> (field_edges schema)\<^sup>* `` set (collectUsedTypes documents))
            (printIntrospectionSchema schema))"
  by (simp add: includeIntrospectionDefinitions_def visit_def parse_def
      TsIntrospectionVisitor_def [abs_def] set_collectAll map_filter_map_filter)

lemma visit_leave:
  "visit definitions (\<lambda>node. Some (f node)) = map f definitions"
  by (simp add: visit_def map_filter_def comp_def)

subsection \<open>The two branches of plugin\<close>

lemma generateOnly_enums_iff:
  "generateOnly_enums config \<longleftrightarrow> (\<exists>others. generateOnly config = Some (''enums'' # others))"
  by (cases "generateOnly config"; cases "the (generateOnly config)")
    (auto simp: generateOnly_enums_def)

lemma plugin_enums_branch:
  assumes "generateOnly_enums config"
  shows "plugin newTsVisitor schema documents config
    = Inr \<lparr>prepend = [],
           content = join_strings '',''
             (filter (\<lambda>d. String_includes d ''export enum'')
                (map (leave (newTsVisitor schema config)) (printSchema schema)))\<rparr>"
  using assms by (simp add: plugin_def Let_def Array_join_def parse_def visit_leave)

lemma plugin_full_branch:
  assumes "\<not> generateOnly_enums config"
  shows "plugin newTsVisitor schema documents config
    = Inr \<lparr>prepend = getEnumsImports (newTsVisitor schema config)
                       @ getScalarsImports (newTsVisitor schema config)
                       @ [getMaybeValue (newTsVisitor schema config)],
           content = Array_join newline (map JSString
             (scalarsDefinition (newTsVisitor schema config)
                # map (leave (newTsVisitor schema config)) (printSchema schema)
                @ includeIntrospectionDefinitions newTsVisitor schema documents config))\<rparr>"
  using assms by (simp add: plugin_def Let_def parse_def visit_leave)

lemma collectAll_distinct_from:
  "distinct acc \<Longrightarrow> distinct (foldl (\<lambda>a ty. collectTypes schema ty a) acc us)"
  by (induction us arbitrary: acc) (simp_all add: collectTypes_distinct(1))

section \<open>The claims\<close>

subsection \<open>C1: every named type is declared once\<close>

text \<open>
  Claim C1. When \<^verbatim>\<open>generateOnly\<close> does not restrict the output to enums, the content is
  the newline-joined list of the scalars block, one declaration for each type of the type
  map that is not an introspection meta-type, and the introspection declarations. The
  declarations of the walk stand in the order of the walk, each type of the type map that
  is not an introspection meta-type has exactly one position in it, and the introspection
  part declares introspection meta-types only. The keys of the type map are distinct.
\<close>

theorem plugin_declares_each_type_once:
  assumes "\<not> generateOnly_enums config" and "distinct (map name_of (typeMap schema))"
  shows "\<exists>decls introspected.
     plugin newTsVisitor schema documents config
       = Inr \<lparr>prepend = getEnumsImports (newTsVisitor schema config)
                          @ getScalarsImports (newTsVisitor schema config)
                          @ [getMaybeValue (newTsVisitor schema config)],
              content = Array_join newline (map JSString
                (scalarsDefinition (newTsVisitor schema config) # decls
                   @ map (leave (newTsVisitor schema config)) introspected))\<rparr>
     \<and> length decls = length (printSchema schema)
     \<and> (\<forall>i < length decls.
           decls ! i = leave (newTsVisitor schema config) (printSchema schema ! i)
           \<and> printSchema schema ! i \<in> set (typeMap schema)
           \<and> \<not> isIntrospectionType (Some (name_of (printSchema schema ! i))))
     \<and> (\<forall>t \<in> set (typeMap schema). \<not> isIntrospectionType (Some (name_of t)) \<longrightarrow>
           (\<exists>!i. i < length decls \<and> printSchema schema ! i = t))
     \<and> (\<forall>t \<in> set introspected. isIntrospectionType (Some (name_of t)))"
proof -
  let ?walk = "printSchema schema"
  let ?decls = "map (leave (newTsVisitor schema config)) ?walk"
  let ?intro = "filter (\<lambda>t. name_of t \<in> (field_edges schema)\<^sup>* `` set (collectUsedTypes documents))
                  (printIntrospectionSchema schema)"
  have dist: "distinct ?walk"
    using assms(2) by (simp add: printSchema_def distinct_map)
  have members: "\<forall>i < length ?decls.
      ?decls ! i = leave (newTsVisitor schema config) (?walk ! i)
      \<and> ?walk ! i \<in> set (typeMap schema)
      \<and> \<not> isIntrospectionType (Some (name_of (?walk ! i)))"
  proof (intro allI impI)
    fix i assume "i < length ?decls"
    then have i: "i < length ?walk" by simp
    then have "?walk ! i \<in> set ?walk" by (rule nth_mem)
    then have "?walk ! i \<in> set (typeMap schema)
      \<and> \<not> isIntrospectionType (Some (name_of (?walk ! i)))"
      by (simp add: printSchema_def)
    with i show "?decls ! i = leave (newTsVisitor schema config) (?walk ! i)
      \<and> ?walk ! i \<in> set (typeMap schema)
      \<and> \<not> isIntrospectionType (Some (name_of (?walk ! i)))"
      by simp
  qed
  have once: "\<forall>t \<in> set (typeMap schema). \<not> isIntrospectionType (Some (name_of t)) \<longrightarrow>
           (\<exists>!i. i < length ?decls \<and> ?walk ! i = t)"
  proof (intro ballI impI)
    fix t assume "t \<in> set (typeMap schema)" "\<not> isIntrospectionType (Some (name_of t))"
    then have "t \<in> set ?walk" by (simp add: printSchema_def)
    with dist have "\<exists>!i. i < length ?walk \<and> ?walk ! i = t" by (rule distinct_Ex1)
    then show "\<exists>!i. i < length ?decls \<and> ?walk ! i = t" by simp
  qed
  have meta: "\<forall>t \<in> set ?intro. isIntrospectionType (Some (name_of t))"
    by (simp add: printIntrospectionSchema_def)
  have out: "plugin newTsVisitor schema documents config
       = Inr \<lparr>prepend = getEnumsImports (newTsVisitor schema config)
                          @ getScalarsImports (newTsVisitor schema config)
                          @ [getMaybeValue (newTsVisitor schema config)],
              content = Array_join newline (map JSString
                (scalarsDefinition (newTsVisitor schema config) # ?decls
                   @ map (leave (newTsVisitor schema config)) ?intro))\<rparr>"
    using plugin_full_branch [OF assms(1)]
    by (simp add: includeIntrospectionDefinitions_eq)
  have len: "length ?decls = length ?walk" by simp
  from out len members once meta show ?thesis by blast
qed

text \<open>The example schema with no \<^verbatim>\<open>generateOnly\<close>.\<close>

theorem plugin_declares_each_type_once_witness:
  "\<not> generateOnly_enums example_config
   \<and> distinct (map name_of (typeMap example_schema))
   \<and> (\<exists>decls introspected.
     plugin example_visitor example_schema [type_name_query] example_config
       = Inr \<lparr>prepend = [''export type Maybe<T> = T | null;''],
              content = Array_join newline (map JSString
                (''export type Scalars = {};'' # decls @ map example_leave introspected))\<rparr>
     \<and> length decls = length (printSchema example_schema)
     \<and> (\<forall>i < length decls.
           decls ! i = example_leave (printSchema example_schema ! i)
           \<and> printSchema example_schema ! i \<in> set (typeMap example_schema)
           \<and> \<not> isIntrospectionType (Some (name_of (printSchema example_schema ! i))))
     \<and> (\<forall>t \<in> set (typeMap example_schema). \<not> isIntrospectionType (Some (name_of t)) \<longrightarrow>
           (\<exists>!i. i < length decls \<and> printSchema example_schema ! i = t))
     \<and> (\<forall>t \<in> set introspected. isIntrospectionType (Some (name_of t))))"
proof -
  have h1: "\<not> generateOnly_enums example_config"
    by (simp add: generateOnly_enums_def example_config_def)
  have h2: "distinct (map name_of (typeMap example_schema))"
    by (simp add: example_schema_def)
  show ?thesis
    using plugin_declares_each_type_once
      [OF h1 h2, of example_visitor "[type_name_query]"] h1 h2
    by (simp add: example_visitor_def)
qed

subsection \<open>C2: the enums-only content\<close>




subsection \<open>C3: a generateOnly that does not name enums\<close>

text \<open>
  Claim C3 says that a non-empty \<^verbatim>\<open>generateOnly\<close> whose first element is not
  \<^verbatim>\<open>'enums'\<close> makes \<^verbatim>\<open>plugin\<close> fail with a configuration error. With
  \<^verbatim>\<open>generateOnly: ['types']\<close> the call returns the full output.
\<close>

theorem invalid_generateOnly_counterexample:
  "plugin example_visitor example_schema [me_query]
       (example_config\<lparr>generateOnly := Some [''types'']\<rparr>) \<noteq> Inl ConfigurationError
   \<and> plugin example_visitor example_schema [me_query]
       (example_config\<lparr>generateOnly := Some [''types'']\<rparr>)
     = Inr \<lparr>prepend = [''export type Maybe<T> = T | null;''],
            content = join_strings newline
              [''export type Scalars = {};'', ''export type Query = {};'',
               ''export type User = {};'', ''export type ID = {};'',
               ''export enum Role {}'', ''export enum Color {}'',
               ''export type String = {};'', ''export type Boolean = {};'']\<rparr>"
  by code_simp

text \<open>
  Claim C3, amended. With a non-empty \<^verbatim>\<open>generateOnly\<close> whose first element is not
  \<^verbatim>\<open>'enums'\<close>, \<^verbatim>\<open>plugin\<close> raises no error and returns the full output: the prepend
  lines of the visitor, and the scalars block, every declaration of the walk and the
  introspection declarations, joined by newlines.
\<close>

theorem invalid_generateOnly_full_output:
  assumes "generateOnly config = Some (g # gs)" and "g \<noteq> ''enums''"
  shows "plugin newTsVisitor schema documents config
    = Inr \<lparr>prepend = getEnumsImports (newTsVisitor schema config)
                       @ getScalarsImports (newTsVisitor schema config)
                       @ [getMaybeValue (newTsVisitor schema config)],
           content = Array_join newline (map JSString
             (scalarsDefinition (newTsVisitor schema config)
                # map (leave (newTsVisitor schema config)) (printSchema schema)
                @ includeIntrospectionDefinitions newTsVisitor schema documents config))\<rparr>"
proof -
  have "\<not> generateOnly_enums config"
    using assms by (simp add: generateOnly_enums_iff)
  then show ?thesis by (rule plugin_full_branch)
qed

theorem invalid_generateOnly_full_output_witness:
  "generateOnly (example_config\<lparr>generateOnly := Some [''types'']\<rparr>) = Some (''types'' # [])
   \<and> ''types'' \<noteq> ''enums''
   \<and> plugin example_visitor example_schema [type_name_query]
       (example_config\<lparr>generateOnly := Some [''types'']\<rparr>)
     = Inr \<lparr>prepend = [''export type Maybe<T> = T | null;''],
            content = Array_join newline (map JSString
              (''export type Scalars = {};''
                 # map example_leave (printSchema example_schema)
                 @ includeIntrospectionDefinitions example_visitor example_schema
                     [type_name_query] (example_config\<lparr>generateOnly := Some [''types'']\<rparr>)))\<rparr>"
proof -
  have h1: "generateOnly (example_config\<lparr>generateOnly := Some [''types'']\<rparr>) = Some (''types'' # [])"
    by simp
  have h2: "''types'' \<noteq> ''enums''"
    by simp
  show ?thesis
    using invalid_generateOnly_full_output
      [OF h1 h2, of example_visitor example_schema "[type_name_query]"] h1 h2
    by (simp add: example_visitor_def)
qed

subsection \<open>C4: the declarations for a document that uses \<open>__Type\<close>\<close>

text \<open>
  Claim C4 says that for documents that refer to \<^verbatim>\<open>__Type.name\<close> only, the declarations
  returned are those of \<^verbatim>\<open>__Type\<close> and of the types reachable from it. The \<^verbatim>\<open>Field()\<close>
  callback records the type of the selected field, not the type the field is selected
  on: for the fragment \<^verbatim>\<open>fragment TypeName on __Type { name }\<close> nothing is recorded and
  no declaration is returned, though \<^verbatim>\<open>__Type\<close> is in the introspection schema.
\<close>

theorem fragment_on_Type_counterexample:
  "doc_content type_name_fragment = [FieldNode ''name'' (Some (Named ''String''))]
   \<and> includeIntrospectionDefinitions example_visitor example_schema [type_name_fragment]
         example_config = []
   \<and> ''__Type'' \<in> set (map name_of (printIntrospectionSchema example_schema))
   \<and> ''__Type'' \<in> reachable_from example_schema ''__Type''"
proof -
  have "includeIntrospectionDefinitions example_visitor example_schema [type_name_fragment]
         example_config = []"
    by code_simp
  moreover have "''__Type'' \<in> set (map name_of (printIntrospectionSchema example_schema))"
    by code_simp
  ultimately show ?thesis
    by (simp add: reachable_from_def type_name_fragment_def)
qed

text \<open>
  Claim C4, amended. When some field that the documents select has the type \<^verbatim>\<open>__Type\<close>
  and no selected field has another introspection meta-type (as in
  \<^verbatim>\<open>__type(name: ...) { name }\<close>, where \<^verbatim>\<open>__type\<close> has the type \<^verbatim>\<open>__Type\<close> and
  \<^verbatim>\<open>name\<close> the type \<^verbatim>\<open>String\<close>), the collected types are exactly
  the types reachable from \<^verbatim>\<open>__Type\<close> along the fields of object types, \<^verbatim>\<open>__Type\<close>
  included, and the declarations returned are those of the types of the introspection
  schema among them, and of no other.
\<close>

theorem type_name_reference_declarations:
  assumes "\<forall>doc \<in> set documents. \<forall>node \<in> set (doc_content doc).
             isIntrospectionType (getNamedType (field_type node)) \<longrightarrow>
             getNamedType (field_type node) = Some ''__Type''"
    and "\<exists>doc \<in> set documents. \<exists>node \<in> set (doc_content doc).
             getNamedType (field_type node) = Some ''__Type''"
  shows "set (collectAll schema (collectUsedTypes documents)) = reachable_from schema ''__Type''
     \<and> ''__Type'' \<in> reachable_from schema ''__Type''
     \<and> includeIntrospectionDefinitions newTsVisitor schema documents config
       = map (leave (newTsVisitor schema config))
           (filter (\<lambda>t. name_of t \<in> reachable_from schema ''__Type'')
              (printIntrospectionSchema schema))"
proof -
  have intro: "isIntrospectionType (Some ''__Type'')"
    by (simp add: isIntrospectionType_def introspectionTypes_def)
  have "set (collectUsedTypes documents) = {''__Type''}"
  proof
    show "set (collectUsedTypes documents) \<subseteq> {''__Type''}"
      using assms(1) unfolding set_collectUsedTypes by fastforce
    show "{''__Type''} \<subseteq> set (collectUsedTypes documents)"
      using assms(2) intro unfolding set_collectUsedTypes by fastforce
  qed
  then show ?thesis
    by (simp add: includeIntrospectionDefinitions_eq set_collectAll reachable_from_def)
qed

text \<open>
  On the example schema the query \<^verbatim>\<open>__type(name: "User") { name }\<close> brings in five of
  the eight introspection meta-types.
\<close>

theorem type_name_reference_declarations_witness:
  "list_all (\<lambda>doc. list_all (\<lambda>node.
      isIntrospectionType (getNamedType (field_type node)) \<longrightarrow>
      getNamedType (field_type node) = Some ''__Type'') (doc_content doc)) [type_name_query]
   \<and> (\<exists>doc \<in> set [type_name_query]. \<exists>node \<in> set (doc_content doc).
         getNamedType (field_type node) = Some ''__Type'')
   \<and> set (collectAll example_schema (collectUsedTypes [type_name_query]))
       = reachable_from example_schema ''__Type''
   \<and> ''__Type'' \<in> reachable_from example_schema ''__Type''
   \<and> includeIntrospectionDefinitions example_visitor example_schema [type_name_query] example_config
       = map example_leave
           (filter (\<lambda>t. name_of t \<in> reachable_from example_schema ''__Type'')
              (printIntrospectionSchema example_schema))
   \<and> includeIntrospectionDefinitions example_visitor example_schema [type_name_query] example_config
       = [''export type __Type = {};'', ''export enum __TypeKind {}'',
          ''export type __Field = {};'', ''export type __InputValue = {};'',
          ''export type __EnumValue = {};'']"
proof -
  have h1: "\<forall>doc \<in> set [type_name_query]. \<forall>node \<in> set (doc_content doc).
      isIntrospectionType (getNamedType (field_type node)) \<longrightarrow>
      getNamedType (field_type node) = Some ''__Type''"
    by (simp add: type_name_query_def getNamedType_def isIntrospectionType_def
        introspectionTypes_def)
  have h2: "\<exists>doc \<in> set [type_name_query]. \<exists>node \<in> set (doc_content doc).
         getNamedType (field_type node) = Some ''__Type''"
    by (simp add: type_name_query_def getNamedType_def)
  have run: "includeIntrospectionDefinitions example_visitor example_schema [type_name_query]
        example_config
       = [''export type __Type = {};'', ''export enum __TypeKind {}'',
          ''export type __Field = {};'', ''export type __InputValue = {};'',
          ''export type __EnumValue = {};'']"
    by code_simp
  show ?thesis
    using type_name_reference_declarations
      [OF h1 h2, of example_schema example_visitor example_config] h1 h2 run
    by (simp add: example_visitor_def list_all_iff)
qed

subsection \<open>C5: no introspection type in use\<close>

text \<open>
  Claim C5. When no field of the documents has an introspection meta-type,
  \<^verbatim>\<open>includeIntrospectionDefinitions\<close> returns the empty list.
\<close>

theorem no_introspection_reference_empty:
  assumes "\<forall>doc \<in> set documents. \<forall>node \<in> set (doc_content doc).
             \<not> isIntrospectionType (getNamedType (field_type node))"
  shows "includeIntrospectionDefinitions newTsVisitor schema documents config = []"
proof -
  have "set (collectUsedTypes documents) = {}"
    using assms unfolding set_collectUsedTypes by fastforce
  then show ?thesis
    by (simp add: includeIntrospectionDefinitions_eq)
qed

theorem no_introspection_reference_empty_witness:
  "list_all (\<lambda>doc. list_all (\<lambda>node.
      \<not> isIntrospectionType (getNamedType (field_type node))) (doc_content doc)) [me_query]
   \<and> includeIntrospectionDefinitions example_visitor example_schema [me_query] example_config = []"
proof -
  have h: "\<forall>doc \<in> set [me_query]. \<forall>node \<in> set (doc_content doc).
      \<not> isIntrospectionType (getNamedType (field_type node))"
    by (simp add: me_query_def getNamedType_def isIntrospectionType_def introspectionTypes_def)
  show ?thesis
    using no_introspection_reference_empty
      [OF h, of example_visitor example_schema example_config] h
    by (simp add: list_all_iff)
qed

subsection \<open>C6: collectTypes terminates\<close>

text \<open>
  Claim C6. \<^verbatim>\<open>collectTypes\<close> terminates on every schema, type and accumulator, cyclic
  type graphs included: every argument is in the accessible part of its call relation.
  A type that is in \<^verbatim>\<open>typesToInclude\<close> already is not entered again, the accumulator is
  returned as it is; an accumulator without repetition stays without repetition, and
  the list accumulated from all used types has none.
\<close>

theorem collectTypes_terminates_distinct:
  "collectTypes_collectTypes_forEach_dom (Inl (schema, ty, typesToInclude))
   \<and> (ty \<in> set typesToInclude \<longrightarrow> collectTypes schema ty typesToInclude = typesToInclude)
   \<and> (distinct typesToInclude \<longrightarrow> distinct (collectTypes schema ty typesToInclude))
   \<and> distinct (collectAll schema usedTypes)"
  using collectTypes_total collectTypes_distinct(1) [of typesToInclude schema ty]
    collectAll_distinct_from [of "[]" schema usedTypes]
  by (simp add: collectTypes.simps collectAll_def)

text \<open>
  In the example schema \<^verbatim>\<open>User\<close> has a field of its own type; the traversal from
  \<^verbatim>\<open>User\<close> returns.
\<close>

theorem collectTypes_terminates_distinct_witness:
  "''User'' \<in> set [''User''] \<and> distinct [''User'']
   \<and> collectTypes_collectTypes_forEach_dom (Inl (example_schema, ''User'', [''User'']))
   \<and> collectTypes example_schema ''User'' [''User''] = [''User'']
   \<and> distinct (collectTypes example_schema ''User'' [''User''])
   \<and> distinct (collectAll example_schema [''__Type'', ''User''])
   \<and> collectTypes example_schema ''User'' [] = [''User'', ''ID'']"
proof -
  have run: "collectTypes example_schema ''User'' [] = [''User'', ''ID'']"
    by code_simp
  show ?thesis
    using collectTypes_terminates_distinct
      [of example_schema "''User''" "[''User'']" "[''__Type'', ''User'']"] run
    by simp
qed

subsection \<open>C7: the separator of the content\<close>

text \<open>
  Claim C7 says that the declarations in the content are separated by newlines, also
  with \<^verbatim>\<open>generateOnly: ['enums']\<close>. In that branch the filtered array is not spread
  into the joined array: it is the single element of it, and converts to a string with a
  comma between its elements. For the two enums of the example schema the content has a
  comma where the claim has a newline.
\<close>

theorem enums_only_joined_by_comma:
  "plugin example_visitor example_schema [me_query]
       (example_config\<lparr>generateOnly := Some [''enums'']\<rparr>)
     = Inr \<lparr>prepend = [], content = ''export enum Role {},export enum Color {}''\<rparr>
   \<and> ''export enum Role {},export enum Color {}''
       \<noteq> join_strings newline [''export enum Role {}'', ''export enum Color {}'']"
  by code_simp

subsection \<open>C9: no prepend lines with enums only\<close>

text \<open>
  Claim C9. When \<^verbatim>\<open>generateOnly\<close> is \<^verbatim>\<open>['enums']\<close>, the prepend list of the output is
  empty: neither the imports nor the \<^verbatim>\<open>Maybe\<close> alias of the visitor are in it.
\<close>

theorem enums_only_prepend_empty:
  assumes "generateOnly config = Some (''enums'' # others)"
  shows "\<exists>out. plugin newTsVisitor schema documents config = Inr out \<and> prepend out = []"
proof -
  have "generateOnly_enums config"
    using assms by (simp add: generateOnly_enums_iff)
  then show ?thesis by (simp add: plugin_enums_branch)
qed

theorem enums_only_prepend_empty_witness:
  "generateOnly (example_config\<lparr>generateOnly := Some [''enums'']\<rparr>) = Some (''enums'' # [])
   \<and> getMaybeValue (example_visitor example_schema
         (example_config\<lparr>generateOnly := Some [''enums'']\<rparr>)) \<noteq> []
   \<and> (\<exists>out. plugin example_visitor example_schema [type_name_query]
         (example_config\<lparr>generateOnly := Some [''enums'']\<rparr>) = Inr out \<and> prepend out = [])"
proof -
  have h: "generateOnly (example_config\<lparr>generateOnly := Some [''enums'']\<rparr>) = Some (''enums'' # [])"
    by simp
  show ?thesis
    using enums_only_prepend_empty [OF h, of example_visitor example_schema "[type_name_query]"] h
    by (simp add: example_visitor_def)
qed

subsection \<open>C10: an empty generateOnly\<close>

text \<open>
  Claim C10. With \<^verbatim>\<open>generateOnly: []\<close> the call returns the full output, and it returns
  what it returns with \<^verbatim>\<open>generateOnly\<close> unset, for a visitor that does not read the
  option. For every configuration, \<^verbatim>\<open>plugin\<close> returns the enums-only output when the
  list is non-empty and its first element is \<^verbatim>\<open>'enums'\<close>, and the full output otherwise.
\<close>

theorem empty_generateOnly_as_unset:
  assumes "generateOnly config = Some []"
    and "newTsVisitor schema config = newTsVisitor schema (config\<lparr>generateOnly := None\<rparr>)"
  shows "plugin newTsVisitor schema documents config
           = plugin newTsVisitor schema documents (config\<lparr>generateOnly := None\<rparr>)
     \<and> plugin newTsVisitor schema documents config
       = Inr \<lparr>prepend = getEnumsImports (newTsVisitor schema config)
                          @ getScalarsImports (newTsVisitor schema config)
                          @ [getMaybeValue (newTsVisitor schema config)],
              content = Array_join newline (map JSString
                (scalarsDefinition (newTsVisitor schema config)
                   # map (leave (newTsVisitor schema config)) (printSchema schema)
                   @ includeIntrospectionDefinitions newTsVisitor schema documents config))\<rparr>
     \<and> ((\<exists>g gs. generateOnly other = Some (g # gs) \<and> g = ''enums'') \<longrightarrow>
          plugin newTsVisitor schema documents other
            = Inr \<lparr>prepend = [],
                   content = Array_join newline
                     [JSArray (filter (\<lambda>d. String_includes d ''export enum'')
                        (map (leave (newTsVisitor schema other)) (printSchema schema)))]\<rparr>)
     \<and> (\<not> (\<exists>g gs. generateOnly other = Some (g # gs) \<and> g = ''enums'') \<longrightarrow>
          plugin newTsVisitor schema documents other
            = Inr \<lparr>prepend = getEnumsImports (newTsVisitor schema other)
                               @ getScalarsImports (newTsVisitor schema other)
                               @ [getMaybeValue (newTsVisitor schema other)],
                   content = Array_join newline (map JSString
                     (scalarsDefinition (newTsVisitor schema other)
                        # map (leave (newTsVisitor schema other)) (printSchema schema)
                        @ includeIntrospectionDefinitions newTsVisitor schema documents other))\<rparr>)"
proof -
  have a: "\<not> generateOnly_enums config"
    using assms(1) by (simp add: generateOnly_enums_iff)
  have b: "\<not> generateOnly_enums (config\<lparr>generateOnly := None\<rparr>)"
    by (simp add: generateOnly_enums_iff)
  have c: "includeIntrospectionDefinitions newTsVisitor schema documents (config\<lparr>generateOnly := None\<rparr>)
         = includeIntrospectionDefinitions newTsVisitor schema documents config"
    using assms(2) by (simp add: includeIntrospectionDefinitions_eq)
  have first: "plugin newTsVisitor schema documents config
           = plugin newTsVisitor schema documents (config\<lparr>generateOnly := None\<rparr>)"
    using assms(2) c by (simp add: plugin_full_branch [OF a] plugin_full_branch [OF b])
  have d: "generateOnly_enums other
          \<longleftrightarrow> (\<exists>g gs. generateOnly other = Some (g # gs) \<and> g = ''enums'')"
    by (auto simp: generateOnly_enums_iff)
  have restricted: "(\<exists>g gs. generateOnly other = Some (g # gs) \<and> g = ''enums'') \<longrightarrow>
          plugin newTsVisitor schema documents other
            = Inr \<lparr>prepend = [],
                   content = Array_join newline
                     [JSArray (filter (\<lambda>d. String_includes d ''export enum'')
                        (map (leave (newTsVisitor schema other)) (printSchema schema)))]\<rparr>"
    unfolding d [symmetric] by (simp add: plugin_enums_branch Array_join_def)
  have full: "\<not> (\<exists>g gs. generateOnly other = Some (g # gs) \<and> g = ''enums'') \<longrightarrow>
          plugin newTsVisitor schema documents other
            = Inr \<lparr>prepend = getEnumsImports (newTsVisitor schema other)
                               @ getScalarsImports (newTsVisitor schema other)
                               @ [getMaybeValue (newTsVisitor schema other)],
                   content = Array_join newline (map JSString
                     (scalarsDefinition (newTsVisitor schema other)
                        # map (leave (newTsVisitor schema other)) (printSchema schema)
                        @ includeIntrospectionDefinitions newTsVisitor schema documents other))\<rparr>"
    unfolding d [symmetric] by (simp add: plugin_full_branch)
  from first plugin_full_branch [OF a] restricted full show ?thesis
    by blast
qed


theorem empty_generateOnly_as_unset_witness:
  "generateOnly (example_config\<lparr>generateOnly := Some []\<rparr>) = Some []
   \<and> example_visitor example_schema (example_config\<lparr>generateOnly := Some []\<rparr>)
       = example_visitor example_schema (example_config\<lparr>generateOnly := None\<rparr>)
   \<and> plugin example_visitor example_schema [type_name_query] (example_config\<lparr>generateOnly := Some []\<rparr>)
       = plugin example_visitor example_schema [type_name_query]
           (example_config\<lparr>generateOnly := None\<rparr>)
   \<and> plugin example_visitor example_schema [type_name_query]
         (example_config\<lparr>generateOnly := Some [''types'', ''enums'']\<rparr>)
       = Inr \<lparr>prepend = [''export type Maybe<T> = T | null;''],
              content = Array_join newline (map JSString
                (''export type Scalars = {};''
                   # map example_leave (printSchema example_schema)
                   @ includeIntrospectionDefinitions example_visitor example_schema
                       [type_name_query]
                       (example_config\<lparr>generateOnly := Some [''types'', ''enums'']\<rparr>)))\<rparr>
   \<and> plugin example_visitor example_schema [type_name_query]
         (example_config\<lparr>generateOnly := Some [''enums'', ''types'']\<rparr>)
       = Inr \<lparr>prepend = [],
              content = Array_join newline
                [JSArray (filter (\<lambda>d. String_includes d ''export enum'')
                   (map example_leave (printSchema example_schema)))]\<rparr>"
proof -
  have h1: "generateOnly (example_config\<lparr>generateOnly := Some []\<rparr>) = Some []"
    by simp
  have h2: "example_visitor example_schema (example_config\<lparr>generateOnly := Some []\<rparr>)
       = example_visitor example_schema
           ((example_config\<lparr>generateOnly := Some []\<rparr>)\<lparr>generateOnly := None\<rparr>)"
    by (simp add: example_visitor_def)
  show ?thesis
    using empty_generateOnly_as_unset
      [where newTsVisitor = example_visitor and schema = example_schema
         and documents = "[type_name_query]"
         and config = "example_config\<lparr>generateOnly := Some []\<rparr>"
         and other = "example_config\<lparr>generateOnly := Some [''types'', ''enums'']\<rparr>", OF h1 h2]
      empty_generateOnly_as_unset
      [where newTsVisitor = example_visitor and schema = example_schema
         and documents = "[type_name_query]"
         and config = "example_config\<lparr>generateOnly := Some []\<rparr>"
         and other = "example_config\<lparr>generateOnly := Some [''enums'', ''types'']\<rparr>", OF h1 h2]
      h1 h2
    by (simp add: example_visitor_def)
qed

end
